theory Spec2Isabelle
  imports Complex_Main "HOL-Library.Sublist"
begin

section \<open>The answer-selection engine of \<open>src/core/nlp.py\<close>\<close>

text \<open>
  The class \<open>QuestionAnalyzer\<close> classifies a question, estimates a sentiment, picks an
  answer strategy, scores every candidate answer and returns the index of the best one.
  The theory embeds its methods as HOL functions, one per method, under the method's name
  without the leading underscore (an Isabelle name cannot start with one).

  Conventions of the embedding:
  \<^item> Python text is a \<open>string\<close>, one \<open>char\<close> per code point, for the code points
    U+0000 to U+00FF; \<open>str.lower\<close>, \<open>str.isspace\<close>, \<open>str.strip\<close> and \<open>str.split\<close> are
    written out for that range.
  \<^item> The spaCy pipeline \<open>self.nlp\<close> and the transformers pipeline
    \<open>self.sentiment_analyzer\<close> are libraries outside the repository: they are fields of
    the analyzer record, arbitrary functions of the text. A call of the sentiment pipeline
    that raises is the value \<open>None\<close>.
  \<^item> A Python exception is a value \<open>Inl e\<close> of the result type \<open>error + 'a\<close>.
  \<^item> Scores are Python floats in the source; here they are rational numbers, so the
    arithmetic \<open>0.5 + 0.3\<close> is exact.
\<close>

subsection \<open>Text primitives\<close>

definition lower_char :: "char \<Rightarrow> char" where
  "lower_char c =
     (let n = (of_char c :: nat)
      in if (65 \<le> n \<and> n \<le> 90) \<or> (192 \<le> n \<and> n \<le> 214) \<or> (216 \<le> n \<and> n \<le> 222)
         then char_of (n + 32) else c)"

definition str_lower :: "string \<Rightarrow> string" where
  "str_lower s = map lower_char s"

definition isspace :: "char \<Rightarrow> bool" where
  "isspace c = ((of_char c :: nat) \<in> set [9, 10, 11, 12, 13, 28, 29, 30, 31, 32, 133, 160])"

definition str_strip :: "string \<Rightarrow> string" where
  "str_strip s = rev (dropWhile isspace (rev (dropWhile isspace s)))"

text \<open>\<open>str.split()\<close> without arguments: the maximal runs of non-whitespace characters.\<close>

fun split_from :: "string \<Rightarrow> string \<Rightarrow> string list" where
  "split_from w [] = (if w = [] then [] else [w])"
| "split_from w (c # cs) =
     (if isspace c then (if w = [] then split_from [] cs else w # split_from [] cs)
      else split_from (w @ [c]) cs)"

definition str_split :: "string \<Rightarrow> string list" where
  "str_split s = split_from [] s"

text \<open>\<open>word in text\<close> on two Python strings is the contiguous-substring test \<^const>\<open>sublist\<close>;
  \<open>text.endswith(s)\<close> is \<^const>\<open>suffix\<close>.\<close>

definition endswith :: "string \<Rightarrow> string \<Rightarrow> bool" where
  "endswith s suf = suffix suf s"

text \<open>\<open>any(word in text for word in ws)\<close>.\<close>

definition contains_any :: "string \<Rightarrow> string list \<Rightarrow> bool" where
  "contains_any text ws = list_ex (\<lambda>word. sublist word text) ws"

subsection \<open>Data\<close>

text \<open>A spaCy token, with the four attributes the source reads, and a spaCy document.\<close>

record token =
  tok_text :: string
  tok_lemma :: string
  tok_pos :: string
  tok_is_stop :: bool

record doc =
  doc_text :: string
  doc_tokens :: "token list"

text \<open>The fields of \<open>self\<close> that the methods read.\<close>

record QuestionAnalyzer =
  nlp :: "string \<Rightarrow> doc"
  use_transformers :: bool
  sentiment_analyzer :: "string \<Rightarrow> string option"

text \<open>The dictionary built by \<open>analyze_question\<close> (lines 77-83).\<close>

record analysis =
  question_type :: string
  sentiment :: string
  analysis_keywords :: "string list"
  answer_strategy :: string
  expected_answer_type :: string

text \<open>The exceptions of the model: \<open>ValueError\<close> (\<open>max\<close> of an empty sequence, \<open>list.index\<close>
  of an absent value), \<open>ZeroDivisionError\<close> (the division of line 312) and \<open>IndexError\<close>
  (the subscript of line 112). \<open>InvalidInputError\<close> is the name the specification uses; no
  line of the source raises it.\<close>

datatype error = ValueError | ZeroDivisionError | IndexError | InvalidInputError

subsection \<open>\<open>_determine_question_type\<close> (lines 117-158)\<close>

definition question_words :: "string list" where
  "question_words = [''what'', ''when'', ''where'', ''who'', ''why'', ''how'', ''which'',
                     ''can'', ''do'', ''is'', ''are'']"

text \<open>The \<open>if\<close>/\<open>elif\<close> chain of lines 136-151.\<close>

definition question_word_type :: "string \<Rightarrow> string" where
  "question_word_type word =
     (if word = ''what'' then ''factual''
      else if word = ''when'' then ''temporal''
      else if word = ''where'' then ''spatial''
      else if word = ''who'' then ''person''
      else if word = ''why'' then ''reason''
      else if word = ''how'' then ''process''
      else if word \<in> set [''can'', ''do'', ''is'', ''are''] then ''yes_no''
      else ''selection'')"

text \<open>The loop of lines 134-151 over the question words: it returns at the first word
  found among \<open>first_words\<close>; \<open>None\<close> is the loop running to its end.\<close>

fun scan_question_words :: "string list \<Rightarrow> string list \<Rightarrow> string option" where
  "scan_question_words [] first_words = None"
| "scan_question_words (word # rest) first_words =
     (if word \<in> set first_words then Some (question_word_type word)
      else scan_question_words rest first_words)"

definition determine_question_type :: "doc \<Rightarrow> string" where
  "determine_question_type d =
     (let first_words = [str_lower (tok_text t). t \<leftarrow> take 3 (doc_tokens d)]
      in case scan_question_words question_words first_words of
           Some qt \<Rightarrow> qt
         | None \<Rightarrow>
             if endswith (str_strip (doc_text d)) ''?'' then ''general_question''
             else ''statement'')"

subsection \<open>\<open>_analyze_sentiment\<close> (lines 160-191)\<close>

definition positive_words :: "string list" where
  "positive_words = [''good'', ''great'', ''excellent'', ''best'', ''positive'', ''like'',
                     ''love'', ''prefer'']"

definition negative_words :: "string list" where
  "negative_words = [''bad'', ''poor'', ''worst'', ''negative'', ''dislike'', ''hate'',
                     ''avoid'', ''terrible'']"

text \<open>\<open>sum(1 for word in words if word in text_lower)\<close>.\<close>

definition count_in :: "string list \<Rightarrow> string \<Rightarrow> nat" where
  "count_in ws text_lower = sum_list [1. word \<leftarrow> ws, sublist word text_lower]"

text \<open>The rule-based fallback, lines 177-191.\<close>

definition rule_based_sentiment :: "string \<Rightarrow> string" where
  "rule_based_sentiment text =
     (let text_lower = str_lower text;
          positive_count = count_in positive_words text_lower;
          negative_count = count_in negative_words text_lower
      in if positive_count > negative_count then ''positive''
         else if negative_count > positive_count then ''negative''
         else ''neutral'')"

definition analyze_sentiment :: "QuestionAnalyzer \<Rightarrow> string \<Rightarrow> string" where
  "analyze_sentiment self text =
     (if use_transformers self then
        (case sentiment_analyzer self text of
           Some label \<Rightarrow> str_lower label
         | None \<Rightarrow> rule_based_sentiment text)
      else rule_based_sentiment text)"

subsection \<open>\<open>_extract_keywords\<close> (lines 193-216)\<close>

definition token_keywords :: "token list \<Rightarrow> string list" where
  "token_keywords ts =
     concat [if tok_pos t \<in> set [''NOUN'', ''PROPN''] \<and> \<not> tok_is_stop t then [tok_lemma t]
             else if tok_pos t \<in> set [''VERB'', ''ADJ''] \<and> \<not> tok_is_stop t then [tok_lemma t]
             else []. t \<leftarrow> ts]"

text \<open>Line 214: keep a keyword unless it is in \<open>seen\<close>, and add it to \<open>seen\<close>.\<close>

fun unique_from :: "string set \<Rightarrow> string list \<Rightarrow> string list" where
  "unique_from seen [] = []"
| "unique_from seen (kw # kws) =
     (if kw \<in> seen then unique_from seen kws else kw # unique_from (insert kw seen) kws)"

definition extract_keywords :: "doc \<Rightarrow> string list" where
  "extract_keywords d = unique_from {} (token_keywords (doc_tokens d))"

subsection \<open>\<open>_determine_answer_strategy\<close> and \<open>_determine_expected_answer_type\<close>\<close>

definition determine_answer_strategy :: "string \<Rightarrow> string \<Rightarrow> string list \<Rightarrow> string" where
  "determine_answer_strategy qt sent kws =
     (if qt = ''yes_no'' then ''prefer_yes''
      else if qt = ''selection'' then ''keyword_match''
      else if qt \<in> set [''factual'', ''temporal'', ''spatial'', ''person''] then ''specific_info''
      else if qt = ''reason'' then ''explanation''
      else ''balanced'')"

definition determine_expected_answer_type :: "doc \<Rightarrow> string \<Rightarrow> string" where
  "determine_expected_answer_type d qt =
     (if qt = ''yes_no'' then ''boolean''
      else if qt = ''selection'' then ''option''
      else if qt = ''temporal'' then ''date_time''
      else if qt = ''spatial'' then ''location''
      else if qt = ''person'' then ''entity''
      else ''text'')"

subsection \<open>\<open>analyze_question\<close> (lines 54-86)\<close>

definition analyze_question :: "QuestionAnalyzer \<Rightarrow> string \<Rightarrow> analysis" where
  "analyze_question self question_text =
     (let d = nlp self question_text;
          qt = determine_question_type d;
          sent = analyze_sentiment self question_text;
          kws = extract_keywords d;
          strategy = determine_answer_strategy qt sent kws
      in \<lparr>question_type = qt, sentiment = sent, analysis_keywords = kws, answer_strategy = strategy,
          expected_answer_type = determine_expected_answer_type d qt\<rparr>)"

subsection \<open>\<open>_score_option\<close> (lines 280-328)\<close>

definition yes_markers :: "string list" where
  "yes_markers = [''yes'', ''agree'', ''strongly agree'', ''definitely'', ''absolutely'']"

definition no_markers :: "string list" where
  "no_markers = [''no'', ''disagree'', ''strongly disagree'', ''definitely not'']"

text \<open>Line 298: the lemmas of the option's content words.\<close>

definition option_keywords_of :: "doc \<Rightarrow> string list" where
  "option_keywords_of option_doc =
     [tok_lemma t. t \<leftarrow> doc_tokens option_doc,
        tok_pos t \<in> set [''NOUN'', ''VERB'', ''ADJ'', ''PROPN''] \<and> \<not> tok_is_stop t]"

text \<open>Line 310: \<open>sum(1 for kw in analysis["keywords"] if kw in option_keywords)\<close>.\<close>

definition count_matches :: "string list \<Rightarrow> string list \<Rightarrow> nat" where
  "count_matches kws option_keywords = sum_list [1. kw \<leftarrow> kws, kw \<in> set option_keywords]"

text \<open>Strategy-based scoring, lines 300-312, from the running \<open>score\<close> to the new one. The
  division of line 312 raises \<open>ZeroDivisionError\<close> on a zero divisor.\<close>

definition strategy_scoring :: "string \<Rightarrow> string list \<Rightarrow> analysis \<Rightarrow> rat \<Rightarrow> error + rat" where
  "strategy_scoring opt option_keywords an score =
     (if answer_strategy an = ''prefer_yes'' then
        (if contains_any (str_lower opt) yes_markers then Inr (score + 3 / 10)
         else if contains_any (str_lower opt) no_markers then Inr (score - 2 / 10)
         else Inr score)
      else if answer_strategy an = ''keyword_match'' then
        (let matches = count_matches (analysis_keywords an) option_keywords
         in if matches > 0 then
              (if length (analysis_keywords an) = 0 then Inl ZeroDivisionError
               else Inr (score + 2 / 10 * (of_nat matches / of_nat (length (analysis_keywords an)))))
            else Inr score)
      else Inr score)"

text \<open>Sentiment matching, lines 314-320.\<close>

definition sentiment_matching :: "QuestionAnalyzer \<Rightarrow> string \<Rightarrow> analysis \<Rightarrow> rat \<Rightarrow> rat" where
  "sentiment_matching self opt an score =
     (let option_sentiment = analyze_sentiment self opt
      in if option_sentiment = sentiment an then score + 1 / 10
         else if (sentiment an = ''positive'' \<and> option_sentiment = ''negative'')
               \<or> (sentiment an = ''negative'' \<and> option_sentiment = ''positive'')
         then score - 1 / 10
         else score)"

text \<open>Length preference, lines 322-325.\<close>

definition length_preference :: "string \<Rightarrow> rat \<Rightarrow> rat" where
  "length_preference opt score =
     (let words = length (str_split opt)
      in if 5 \<le> words \<and> words \<le> 25 then score + 5 / 100 else score)"

definition score_option :: "QuestionAnalyzer \<Rightarrow> string \<Rightarrow> string \<Rightarrow> analysis \<Rightarrow> error + rat" where
  "score_option self opt question an =
     (let score = 5 / 10;
          option_doc = nlp self opt;
          option_keywords = option_keywords_of option_doc
      in case strategy_scoring opt option_keywords an score of
           Inl e \<Rightarrow> Inl e
         | Inr score1 \<Rightarrow>
             Inr (max 0 (min 1 (length_preference opt (sentiment_matching self opt an score1)))))"

subsection \<open>\<open>predict_best_answer\<close> (lines 88-115)\<close>

text \<open>The loop of lines 105-108: the scores in the order of the options.\<close>

fun score_options :: "QuestionAnalyzer \<Rightarrow> string \<Rightarrow> analysis \<Rightarrow> string list \<Rightarrow> error + rat list" where
  "score_options self question an [] = Inr []"
| "score_options self question an (opt # opts) =
     (case score_option self opt question an of
        Inl e \<Rightarrow> Inl e
      | Inr score \<Rightarrow>
          (case score_options self question an opts of
             Inl e \<Rightarrow> Inl e
           | Inr scores \<Rightarrow> Inr (score # scores)))"

text \<open>The built-ins \<open>max(scores)\<close> and \<open>scores.index(v)\<close>.\<close>

fun py_max :: "rat list \<Rightarrow> error + rat" where
  "py_max [] = Inl ValueError"
| "py_max (x # xs) = Inr (fold (\<lambda>y m. if y > m then y else m) xs x)"

fun py_index :: "rat list \<Rightarrow> rat \<Rightarrow> error + nat" where
  "py_index [] v = Inl ValueError"
| "py_index (x # xs) v =
     (if x = v then Inr 0
      else case py_index xs v of Inl e \<Rightarrow> Inl e | Inr i \<Rightarrow> Inr (Suc i))"

definition py_get :: "rat list \<Rightarrow> nat \<Rightarrow> error + rat" where
  "py_get xs i = (if i < length xs then Inr (xs ! i) else Inl IndexError)"

definition predict_best_answer :: "QuestionAnalyzer \<Rightarrow> string \<Rightarrow> string list \<Rightarrow> error + nat \<times> rat" where
  "predict_best_answer self question_text options =
     (let an = analyze_question self question_text
      in case score_options self question_text an options of
           Inl e \<Rightarrow> Inl e
         | Inr scores \<Rightarrow>
             (case py_max scores of
                Inl e \<Rightarrow> Inl e
              | Inr m \<Rightarrow>
                  (case py_index scores m of
                     Inl e \<Rightarrow> Inl e
                   | Inr best_index \<Rightarrow>
                       (case py_get scores best_index of
                          Inl e \<Rightarrow> Inl e
                        | Inr confidence \<Rightarrow> Inr (best_index, confidence)))))"

subsection \<open>Concrete collaborators for evaluation\<close>

text \<open>A stand-in for the spaCy pipeline, used only to evaluate the engine at concrete
  inputs: it splits the text at whitespace and tags nothing. The analyzer built on it has
  the transformers pipeline switched off, as after the \<open>except\<close> branch of \<open>__init__\<close>
  (line 52).\<close>

definition plain_token :: "string \<Rightarrow> token" where
  "plain_token s = \<lparr>tok_text = s, tok_lemma = str_lower s, tok_pos = ''X'', tok_is_stop = False\<rparr>"

definition whitespace_nlp :: "string \<Rightarrow> doc" where
  "whitespace_nlp s = \<lparr>doc_text = s, doc_tokens = map plain_token (str_split s)\<rparr>"

definition no_pipeline :: "string \<Rightarrow> string option" where
  "no_pipeline s = None"

definition fallback_analyzer :: QuestionAnalyzer where
  "fallback_analyzer =
     \<lparr>nlp = whitespace_nlp, use_transformers = False, sentiment_analyzer = no_pipeline\<rparr>"

definition failing_analyzer :: QuestionAnalyzer where
  "failing_analyzer =
     \<lparr>nlp = whitespace_nlp, use_transformers = True, sentiment_analyzer = no_pipeline\<rparr>"

definition prefer_yes_analysis :: analysis where
  "prefer_yes_analysis =
     \<lparr>question_type = ''yes_no'', sentiment = ''neutral'', analysis_keywords = [],
      answer_strategy = ''prefer_yes'', expected_answer_type = ''boolean''\<rparr>"

definition keyword_match_analysis :: analysis where
  "keyword_match_analysis =
     \<lparr>question_type = ''selection'', sentiment = ''neutral'',
      analysis_keywords = [''colour'', ''car''],
      answer_strategy = ''keyword_match'', expected_answer_type = ''option''\<rparr>"

subsection \<open>The tables and rules of the specification\<close>

text \<open>These definitions follow the words of the specification, not the source; the
  theorems below compare them with the functions above.\<close>

text \<open>Section 4.1: the fixed table from question word to question type, in the order of
  the question-word list.\<close>

definition question_type_table :: "(string \<times> string) list" where
  "question_type_table =
     [(''what'', ''factual''), (''when'', ''temporal''), (''where'', ''spatial''),
      (''who'', ''person''), (''why'', ''reason''), (''how'', ''process''),
      (''which'', ''selection''), (''can'', ''yes_no''), (''do'', ''yes_no''),
      (''is'', ''yes_no''), (''are'', ''yes_no'')]"

definition first_words :: "doc \<Rightarrow> string list" where
  "first_words d = map (\<lambda>t. str_lower (tok_text t)) (take 3 (doc_tokens d))"

text \<open>The first entry of the table, in table order, whose word is among the first three
  lower-cased tokens decides; with no such entry the trailing question mark does.\<close>

definition classify_by_table :: "doc \<Rightarrow> string" where
  "classify_by_table d =
     (case find (\<lambda>entry. fst entry \<in> set (first_words d)) question_type_table of
        Some entry \<Rightarrow> snd entry
      | None \<Rightarrow>
          if endswith (str_strip (doc_text d)) ''?'' then ''general_question''
          else ''statement'')"

text \<open>Section 4.2: the number of words of each fixed set that occur in the lower-cased
  text, compared.\<close>

definition sentiment_rule :: "string \<Rightarrow> string" where
  "sentiment_rule text =
     (let p = card {w \<in> set positive_words. sublist w (str_lower text)};
          n = card {w \<in> set negative_words. sublist w (str_lower text)}
      in if p > n then ''positive'' else if n > p then ''negative'' else ''neutral'')"

text \<open>Section 4.4: the strategy table; a type that is not listed is \<open>balanced\<close>.\<close>

definition strategy_table :: "(string \<times> string) list" where
  "strategy_table =
     [(''yes_no'', ''prefer_yes''), (''selection'', ''keyword_match''),
      (''factual'', ''specific_info''), (''temporal'', ''specific_info''),
      (''spatial'', ''specific_info''), (''person'', ''specific_info''),
      (''reason'', ''explanation'')]"

text \<open>The expected answer types; a type that is not listed is \<open>text\<close>.\<close>

definition expected_answer_table :: "(string \<times> string) list" where
  "expected_answer_table =
     [(''yes_no'', ''boolean''), (''selection'', ''option''), (''temporal'', ''date_time''),
      (''spatial'', ''location''), (''person'', ''entity'')]"

section \<open>Properties\<close>

subsection \<open>The scorer returns, and returns a clamped score\<close>

lemma count_matches_Nil: "count_matches [] oks = 0"
  by (simp add: count_matches_def)

lemma count_matches_le: "count_matches kws oks \<le> length kws"
  unfolding count_matches_def by (induction kws) simp_all

lemma strategy_scoring_keyword_match:
  "answer_strategy an = ''keyword_match'' \<Longrightarrow>
   strategy_scoring opt oks an score =
     Inr (if count_matches (analysis_keywords an) oks > 0
          then score + 2 / 10 * (of_nat (count_matches (analysis_keywords an) oks)
                                 / of_nat (length (analysis_keywords an)))
          else score)"
  by (cases "analysis_keywords an") (simp_all add: strategy_scoring_def Let_def count_matches_Nil)

lemma strategy_scoring_returns: "\<exists>s. strategy_scoring opt oks an score = Inr s"
proof (cases "answer_strategy an = ''keyword_match''")
  case True
  then show ?thesis using strategy_scoring_keyword_match by blast
next
  case False
  then show ?thesis by (simp add: strategy_scoring_def)
qed

lemma score_option_clamped:
  "\<exists>s. score_option self opt question an = Inr s \<and> 0 \<le> s \<and> s \<le> 1"
proof -
  obtain s1 where "strategy_scoring opt (option_keywords_of (nlp self opt)) an (5 / 10) = Inr s1"
    using strategy_scoring_returns by blast
  then show ?thesis by (simp add: score_option_def Let_def)
qed

text \<open>
  \<^bold>\<open>C6.\<close> For every option text, question text and analysis record, whatever its strategy,
  sentiment and keywords, \<open>_score_option\<close> returns a score, and the score lies in the
  closed interval from 0 to 1.
\<close>

theorem score_option_in_unit_interval:
  "\<exists>s. score_option self opt question an = Inr s \<and> 0 \<le> s \<and> s \<le> 1"
  by (rule score_option_clamped)

theorem score_option_in_unit_interval_witness:
  "score_option fallback_analyzer ''yes I definitely agree with that'' ''Do you agree?''
     prefer_yes_analysis = Inr (19 / 20)
   \<and> (0::rat) \<le> 19 / 20 \<and> (19 / 20 :: rat) \<le> 1"
proof -
  have ev: "score_option fallback_analyzer ''yes I definitely agree with that'' ''Do you agree?''
              prefer_yes_analysis = Inr (19 / 20)"
    by code_simp
  obtain s where "score_option fallback_analyzer ''yes I definitely agree with that''
      ''Do you agree?'' prefer_yes_analysis = Inr s" and "0 \<le> s" and "s \<le> 1"
    using score_option_in_unit_interval by blast
  with ev show ?thesis by simp
qed

subsection \<open>The division of the keyword-match branch\<close>

text \<open>
  \<^bold>\<open>C8.\<close> Under the \<open>keyword_match\<close> strategy the strategy block never raises
  \<open>ZeroDivisionError\<close>: it returns the score plus \<open>0.2 * matches / |keywords|\<close> when
  \<open>matches > 0\<close> and the score unchanged otherwise; \<open>matches\<close> is at most the number of
  analysis keywords, so \<open>matches > 0\<close> only with a non-empty keyword list; with the empty
  keyword list the block adds nothing; and \<open>_score_option\<close> returns a score.
\<close>

theorem keyword_match_division_guarded:
  assumes "answer_strategy an = ''keyword_match''"
  shows "strategy_scoring opt oks an score =
           Inr (if count_matches (analysis_keywords an) oks > 0
                then score + 2 / 10 * (of_nat (count_matches (analysis_keywords an) oks)
                                       / of_nat (length (analysis_keywords an)))
                else score)
       \<and> count_matches (analysis_keywords an) oks \<le> length (analysis_keywords an)
       \<and> strategy_scoring opt oks (an\<lparr>analysis_keywords := []\<rparr>) score = Inr score
       \<and> (\<exists>s. score_option self opt q an = Inr s)"
proof -
  have "answer_strategy (an\<lparr>analysis_keywords := []\<rparr>) = ''keyword_match''"
    using assms by simp
  then have empty: "strategy_scoring opt oks (an\<lparr>analysis_keywords := []\<rparr>) score = Inr score"
    by (simp add: strategy_scoring_keyword_match count_matches_Nil)
  have ret: "\<exists>s. score_option self opt q an = Inr s"
    using score_option_clamped by blast
  from strategy_scoring_keyword_match [OF assms] count_matches_le empty ret
  show ?thesis by blast
qed

theorem keyword_match_division_guarded_witness:
  "answer_strategy keyword_match_analysis = ''keyword_match''
   \<and> strategy_scoring ''a red car'' [''car''] keyword_match_analysis (5 / 10) = Inr (6 / 10)
   \<and> strategy_scoring ''a red car'' [''car'']
       (keyword_match_analysis\<lparr>analysis_keywords := []\<rparr>) (5 / 10) = Inr (5 / 10)"
proof -
  have h: "answer_strategy keyword_match_analysis = ''keyword_match''"
    by (simp add: keyword_match_analysis_def)
  have m: "count_matches (analysis_keywords keyword_match_analysis) [''car''] = 1"
    "length (analysis_keywords keyword_match_analysis) = 2"
    by (simp_all add: keyword_match_analysis_def count_matches_def)
  from keyword_match_division_guarded [OF h, of "''a red car''" "[''car'']" "5 / 10"] h
  show ?thesis by (simp add: m)
qed

subsection \<open>The positive and the negative check of the prefer-yes strategy\<close>

text \<open>
  \<^bold>\<open>C2\<close>, as the specification states it, fails: the option \<open>Strongly disagree\<close> contains a
  positive marker (\<open>agree\<close>) and a negative one (\<open>disagree\<close>), and under \<open>prefer_yes\<close>
  the strategy block adds 0.3 to the score, not 0.3 - 0.2: the negative check is the
  \<open>elif\<close> of the positive one (lines 303-306).
\<close>

theorem prefer_yes_both_markers_counterexample:
  "answer_strategy prefer_yes_analysis = ''prefer_yes''
   \<and> contains_any (str_lower ''Strongly disagree'') yes_markers
   \<and> contains_any (str_lower ''Strongly disagree'') no_markers
   \<and> strategy_scoring ''Strongly disagree'' [] prefer_yes_analysis (5 / 10)
       \<noteq> Inr (5 / 10 + 3 / 10 - 2 / 10)
   \<and> strategy_scoring ''Strongly disagree'' [] prefer_yes_analysis (5 / 10)
       = Inr (5 / 10 + 3 / 10)"
  by code_simp

text \<open>
  \<^bold>\<open>C2, amended.\<close> Under \<open>prefer_yes\<close> the two checks are exclusive: an option that
  contains a positive marker gets +0.3 and nothing else from the strategy block, whether
  or not it also contains a negative marker; -0.2 is applied only to an option that
  contains no positive marker and contains a negative one; any other option is left as it
  is. The final score is that value after the sentiment and length adjustments, clamped.
\<close>

theorem prefer_yes_checks_exclusive:
  assumes "answer_strategy an = ''prefer_yes''"
  shows "strategy_scoring opt oks an score =
           Inr (if contains_any (str_lower opt) yes_markers then score + 3 / 10
                else if contains_any (str_lower opt) no_markers then score - 2 / 10
                else score)
       \<and> score_option self opt q an =
           Inr (max 0 (min 1 (length_preference opt (sentiment_matching self opt an
                  (if contains_any (str_lower opt) yes_markers then 5 / 10 + 3 / 10
                   else if contains_any (str_lower opt) no_markers then 5 / 10 - 2 / 10
                   else 5 / 10)))))"
  using assms by (simp add: strategy_scoring_def score_option_def Let_def)

theorem prefer_yes_checks_exclusive_witness:
  "answer_strategy prefer_yes_analysis = ''prefer_yes''
   \<and> strategy_scoring ''Strongly disagree'' [] prefer_yes_analysis (5 / 10) = Inr (8 / 10)
   \<and> strategy_scoring ''No opinion'' [] prefer_yes_analysis (5 / 10) = Inr (3 / 10)"
proof -
  have h: "answer_strategy prefer_yes_analysis = ''prefer_yes''"
    by (simp add: prefer_yes_analysis_def)
  have m: "contains_any (str_lower ''Strongly disagree'') yes_markers"
    "\<not> contains_any (str_lower ''No opinion'') yes_markers"
    "contains_any (str_lower ''No opinion'') no_markers"
    by code_simp+
  from prefer_yes_checks_exclusive [OF h, of "''Strongly disagree''" "[]" "5 / 10"]
    prefer_yes_checks_exclusive [OF h, of "''No opinion''" "[]" "5 / 10"] h
  show ?thesis by (simp add: m)
qed

subsection \<open>The ranker on an empty list of options\<close>

text \<open>
  \<^bold>\<open>C3\<close>, as the specification states it, fails: on an empty list of options the ranker
  does not fail with \<open>InvalidInputError\<close>, an exception the repository does not define.
\<close>

theorem predict_best_answer_empty_counterexample:
  "predict_best_answer fallback_analyzer ''Any question?'' [] \<noteq> Inl InvalidInputError
   \<and> predict_best_answer fallback_analyzer ''Any question?'' [] = Inl ValueError"
  by (simp add: predict_best_answer_def Let_def)

text \<open>
  \<^bold>\<open>C3, amended.\<close> For every analyzer and every question text, the ranker called with
  an empty list of options fails with \<open>ValueError\<close>, raised by \<open>max\<close> on the empty list of
  scores (line 111); it never returns a pair.
\<close>

theorem predict_best_answer_empty:
  "predict_best_answer self question_text [] = Inl ValueError"
  by (simp add: predict_best_answer_def Let_def)

subsection \<open>The strategy selector and the expected answer type\<close>

text \<open>
  \<^bold>\<open>C7.\<close> The strategy is the entry of the strategy table for the question type, and
  \<open>balanced\<close> for every type without an entry; the sentiment and the keywords do not
  change it.
\<close>

theorem determine_answer_strategy_lookup:
  "determine_answer_strategy qt sent kws =
     (case map_of strategy_table qt of Some tag \<Rightarrow> tag | None \<Rightarrow> ''balanced'')
   \<and> determine_answer_strategy qt sent kws = determine_answer_strategy qt sent' kws'"
  by (simp add: determine_answer_strategy_def strategy_table_def)

theorem determine_answer_strategy_lookup_witness:
  "determine_answer_strategy ''yes_no'' ''neutral'' [] = ''prefer_yes''
   \<and> determine_answer_strategy ''person'' ''positive'' [''name''] = ''specific_info''
   \<and> determine_answer_strategy ''process'' ''negative'' [] = ''balanced''"
  using determine_answer_strategy_lookup [of "''yes_no''" "''neutral''" "[]"]
    determine_answer_strategy_lookup [of "''person''" "''positive''" "[''name'']"]
    determine_answer_strategy_lookup [of "''process''" "''negative''" "[]"]
  by (simp add: strategy_table_def)

text \<open>
  \<^bold>\<open>C10.\<close> The \<open>expected_answer_type\<close> of the analysis of any question is the entry of
  the expected-answer table for the analysis's own \<open>question_type\<close>, and \<open>text\<close> for a type
  without an entry; \<open>factual\<close>, \<open>reason\<close>, \<open>process\<close>, \<open>general_question\<close> and \<open>statement\<close>
  have no entry.
\<close>

theorem expected_answer_type_lookup:
  "expected_answer_type (analyze_question self q) =
     (case map_of expected_answer_table (question_type (analyze_question self q)) of
        Some t \<Rightarrow> t | None \<Rightarrow> ''text'')
   \<and> map_of expected_answer_table ''factual'' = None
   \<and> map_of expected_answer_table ''reason'' = None
   \<and> map_of expected_answer_table ''process'' = None
   \<and> map_of expected_answer_table ''general_question'' = None
   \<and> map_of expected_answer_table ''statement'' = None"
  by (simp add: analyze_question_def Let_def determine_expected_answer_type_def
      expected_answer_table_def)

theorem expected_answer_type_lookup_witness:
  "question_type (analyze_question fallback_analyzer ''Where do you live?'') = ''spatial''
   \<and> expected_answer_type (analyze_question fallback_analyzer ''Where do you live?'') = ''location''"
proof -
  have qt: "question_type (analyze_question fallback_analyzer ''Where do you live?'') = ''spatial''"
    by code_simp
  from expected_answer_type_lookup [of fallback_analyzer "''Where do you live?''"] qt
  show ?thesis by (simp add: expected_answer_table_def)
qed

subsection \<open>The question classifier\<close>

lemma scan_question_words_table:
  "scan_question_words question_words fw =
     map_option snd (find (\<lambda>entry. fst entry \<in> set fw) question_type_table)"
  by (simp add: question_words_def question_type_table_def question_word_type_def)

text \<open>
  \<^bold>\<open>C4.\<close> The classifier is a total function that returns one of the ten question types,
  and it agrees with the table-driven rule: the first entry of the question-word table, in
  the order of the question-word list (not in the order of the text), whose word is among
  the first three lower-cased tokens gives the type; when no entry matches, the type is
  \<open>general_question\<close> if the stripped text ends with a question mark and \<open>statement\<close>
  otherwise. The words of the table are the question-word list of the source, in its order.
\<close>

theorem determine_question_type_table:
  "determine_question_type d = classify_by_table d
   \<and> map fst question_type_table = question_words
   \<and> determine_question_type d \<in> set [''factual'', ''temporal'', ''spatial'', ''person'',
        ''reason'', ''process'', ''selection'', ''yes_no'', ''general_question'', ''statement'']"
proof -
  have a: "determine_question_type d = classify_by_table d"
    by (simp add: determine_question_type_def classify_by_table_def first_words_def
        scan_question_words_table split: option.splits)
  have b: "map fst question_type_table = question_words"
    by (simp add: question_words_def question_type_table_def)
  have c: "classify_by_table d \<in> set [''factual'', ''temporal'', ''spatial'', ''person'',
        ''reason'', ''process'', ''selection'', ''yes_no'', ''general_question'', ''statement'']"
    by (simp add: classify_by_table_def question_type_table_def)
  from a b c show ?thesis by simp
qed

theorem determine_question_type_table_witness:
  "determine_question_type (whitespace_nlp ''Is what you said true?'') = ''factual''
   \<and> determine_question_type (whitespace_nlp ''Which one do you want?'') = ''selection''
   \<and> determine_question_type (whitespace_nlp ''Please continue?'') = ''general_question''
   \<and> determine_question_type (whitespace_nlp ''Tell me more about what happened'') = ''statement''"
proof -
  have ev: "classify_by_table (whitespace_nlp ''Is what you said true?'') = ''factual''"
    "classify_by_table (whitespace_nlp ''Which one do you want?'') = ''selection''"
    "classify_by_table (whitespace_nlp ''Please continue?'') = ''general_question''"
    "classify_by_table (whitespace_nlp ''Tell me more about what happened'') = ''statement''"
    by code_simp+
  from determine_question_type_table [of "whitespace_nlp ''Is what you said true?''"]
    determine_question_type_table [of "whitespace_nlp ''Which one do you want?''"]
    determine_question_type_table [of "whitespace_nlp ''Please continue?''"]
    determine_question_type_table [of "whitespace_nlp ''Tell me more about what happened''"]
  show ?thesis by (simp only: ev simp_thms)
qed

subsection \<open>The rule-based sentiment fallback\<close>

lemma count_in_card:
  assumes "distinct ws"
  shows "count_in ws t = card {w \<in> set ws. sublist w t}"
proof -
  have "count_in ws t = length (filter (\<lambda>w. sublist w t) ws)"
    unfolding count_in_def by (induction ws) simp_all
  also have "\<dots> = card (set (filter (\<lambda>w. sublist w t) ws))"
    by (rule distinct_card [symmetric]) (simp add: assms)
  also have "set (filter (\<lambda>w. sublist w t) ws) = {w \<in> set ws. sublist w t}"
    by simp
  finally show ?thesis .
qed

lemma rule_based_sentiment_rule: "rule_based_sentiment text = sentiment_rule text"
proof -
  have "distinct positive_words" "distinct negative_words"
    by (simp_all add: positive_words_def negative_words_def)
  then show ?thesis
    by (simp add: rule_based_sentiment_def sentiment_rule_def count_in_card Let_def)
qed

lemma sentiment_examples:
  "rule_based_sentiment ''This is a great and excellent result'' = ''positive''"
  "rule_based_sentiment ''This is terrible and bad'' = ''negative''"
  "rule_based_sentiment ''The sky is present'' = ''neutral''"
  by code_simp+

lemma analyze_sentiment_fallback:
  "\<not> use_transformers self \<or> sentiment_analyzer self text = None \<Longrightarrow>
   analyze_sentiment self text = rule_based_sentiment text"
  by (auto simp: analyze_sentiment_def)

text \<open>
  \<^bold>\<open>C5.\<close> When the transformers pipeline is switched off, or its call on the text raises,
  the sentiment of the text is given by the rule: with \<open>p\<close> the number of words of the
  positive set and \<open>n\<close> the number of words of the negative set that occur in the
  lower-cased text, \<open>positive\<close> if \<open>p > n\<close>, \<open>negative\<close> if \<open>n > p\<close>, \<open>neutral\<close> otherwise.
  The rule gives \<open>positive\<close>, \<open>negative\<close> and \<open>neutral\<close> on the three texts of the
  specification.
\<close>

theorem sentiment_fallback_rule:
  assumes "\<not> use_transformers self \<or> sentiment_analyzer self text = None"
  shows "analyze_sentiment self text = sentiment_rule text
       \<and> sentiment_rule ''This is a great and excellent result'' = ''positive''
       \<and> sentiment_rule ''This is terrible and bad'' = ''negative''
       \<and> sentiment_rule ''The sky is present'' = ''neutral''"
  using analyze_sentiment_fallback [OF assms] sentiment_examples
  by (simp add: rule_based_sentiment_rule)

theorem sentiment_fallback_rule_witness:
  "\<not> use_transformers fallback_analyzer
   \<and> analyze_sentiment fallback_analyzer ''This is a great and excellent result'' = ''positive''
   \<and> analyze_sentiment fallback_analyzer ''The sky is present'' = ''neutral''
   \<and> sentiment_analyzer failing_analyzer ''This is terrible and bad'' = None
   \<and> analyze_sentiment failing_analyzer ''This is terrible and bad'' = ''negative''"
proof -
  have off: "\<not> use_transformers fallback_analyzer"
    by (simp add: fallback_analyzer_def)
  have raises: "sentiment_analyzer failing_analyzer ''This is terrible and bad'' = None"
    by (simp add: failing_analyzer_def no_pipeline_def)
  from sentiment_fallback_rule [of fallback_analyzer "''This is a great and excellent result''"]
    sentiment_fallback_rule [of fallback_analyzer "''The sky is present''"]
    sentiment_fallback_rule [of failing_analyzer "''This is terrible and bad''"]
    off raises
  show ?thesis by simp
qed

subsection \<open>The ranker\<close>

lemma score_options_scores:
  "\<exists>scores. score_options self q an opts = Inr scores \<and> length scores = length opts
     \<and> (\<forall>k<length opts. score_option self (opts ! k) q an = Inr (scores ! k))"
proof (induction opts)
  case Nil
  then show ?case by simp
next
  case (Cons opt opts)
  then obtain scores where rest: "score_options self q an opts = Inr scores"
    "length scores = length opts"
    "\<forall>k<length opts. score_option self (opts ! k) q an = Inr (scores ! k)"
    by blast
  obtain s where s: "score_option self opt q an = Inr s"
    using score_option_clamped by blast
  have "\<forall>k<length (opt # opts). score_option self ((opt # opts) ! k) q an = Inr ((s # scores) ! k)"
  proof (intro allI impI)
    fix k assume "k < length (opt # opts)"
    then show "score_option self ((opt # opts) ! k) q an = Inr ((s # scores) ! k)"
      using s rest(3) by (cases k) simp_all
  qed
  then show ?case using s rest(1,2) by simp
qed

lemma py_max_Max: "xs \<noteq> [] \<Longrightarrow> py_max xs = Inr (Max (set xs))"
proof -
  have step: "(\<lambda>y m::rat. if y > m then y else m) = max"
    by (auto simp: fun_eq_iff max_def)
  assume "xs \<noteq> []"
  then obtain x xs' where "xs = x # xs'" by (cases xs) auto
  then show ?thesis using Max.set_eq_fold [of x xs'] by (simp add: step)
qed

lemma py_index_first:
  "v \<in> set xs \<Longrightarrow>
   \<exists>i. py_index xs v = Inr i \<and> i < length xs \<and> xs ! i = v \<and> (\<forall>j<i. xs ! j \<noteq> v)"
proof (induction xs)
  case Nil
  then show ?case by simp
next
  case (Cons x xs)
  show ?case
  proof (cases "x = v")
    case True
    then show ?thesis by simp
  next
    case False
    with Cons.prems have "v \<in> set xs" by simp
    then obtain i where i: "py_index xs v = Inr i" "i < length xs" "xs ! i = v"
      "\<forall>j<i. xs ! j \<noteq> v"
      using Cons.IH by blast
    have "\<forall>j<Suc i. (x # xs) ! j \<noteq> v"
    proof (intro allI impI)
      fix j assume "j < Suc i"
      then show "(x # xs) ! j \<noteq> v" using False i(4) by (cases j) simp_all
    qed
    then show ?thesis using False i(1,2,3) by simp
  qed
qed

text \<open>
  \<^bold>\<open>C1.\<close> For every analyzer, every question and every non-empty list of options, there
  is a list \<open>scores\<close>, as long as the options, whose \<open>k\<close>-th entry is the score that
  \<open>_score_option\<close> returns for the \<open>k\<close>-th option under the analysis of the question, and
  the ranker returns a pair \<open>(i, c)\<close> where \<open>i\<close> is an index into the options, \<open>c\<close> is the
  maximum of the scores, the \<open>i\<close>-th score is \<open>c\<close>, and every score before the \<open>i\<close>-th is
  strictly smaller.
\<close>

theorem predict_best_answer_argmax:
  assumes "opts \<noteq> []"
  shows "\<exists>scores i c.
           length scores = length opts
         \<and> (\<forall>k<length opts.
              score_option self (opts ! k) q (analyze_question self q) = Inr (scores ! k))
         \<and> predict_best_answer self q opts = Inr (i, c)
         \<and> i < length opts \<and> c = Max (set scores) \<and> scores ! i = c
         \<and> (\<forall>j<i. scores ! j < c)"
proof -
  obtain scores where sc: "score_options self q (analyze_question self q) opts = Inr scores"
    "length scores = length opts"
    "\<forall>k<length opts. score_option self (opts ! k) q (analyze_question self q) = Inr (scores ! k)"
    using score_options_scores by blast
  from assms sc(2) have ne: "scores \<noteq> []" by auto
  then have mx: "py_max scores = Inr (Max (set scores))" by (rule py_max_Max)
  from ne have "Max (set scores) \<in> set scores" by simp
  then obtain i where i: "py_index scores (Max (set scores)) = Inr i" "i < length scores"
    "scores ! i = Max (set scores)" "\<forall>j<i. scores ! j \<noteq> Max (set scores)"
    using py_index_first by blast
  have below: "\<forall>j<i. scores ! j < Max (set scores)"
  proof (intro allI impI)
    fix j assume j: "j < i"
    with i(2) have "scores ! j \<in> set scores" by simp
    then have "scores ! j \<le> Max (set scores)" by simp
    moreover from j i(4) have "scores ! j \<noteq> Max (set scores)" by blast
    ultimately show "scores ! j < Max (set scores)" by simp
  qed
  have "predict_best_answer self q opts = Inr (i, Max (set scores))"
    using sc(1) mx i(1,2,3) by (simp add: predict_best_answer_def Let_def py_get_def)
  with sc(2,3) i(2,3) below show ?thesis by auto
qed

theorem predict_best_answer_argmax_witness:
  "[''no'', ''yes'', ''yes indeed''] \<noteq> []
   \<and> predict_best_answer fallback_analyzer ''Is this good?'' [''no'', ''yes'', ''yes indeed'']
       = Inr (1, 8 / 10)"
proof -
  let ?q = "''Is this good?''"
  let ?an = "analyze_question fallback_analyzer ?q"
  let ?opts = "[''no'', ''yes'', ''yes indeed'']"
  have ne: "?opts \<noteq> []" by simp
  have ev: "score_option fallback_analyzer ''no'' ?q ?an = Inr (3 / 10)"
    "score_option fallback_analyzer ''yes'' ?q ?an = Inr (8 / 10)"
    "score_option fallback_analyzer ''yes indeed'' ?q ?an = Inr (8 / 10)"
    by code_simp+
  obtain scores i c where len: "length scores = length ?opts"
    and each: "\<forall>k<length ?opts. score_option fallback_analyzer (?opts ! k) ?q ?an = Inr (scores ! k)"
    and res: "predict_best_answer fallback_analyzer ?q ?opts = Inr (i, c)"
    and i: "i < length ?opts" and c: "c = Max (set scores)" and at: "scores ! i = c"
    and first: "\<forall>j<i. scores ! j < c"
    using predict_best_answer_argmax [OF ne, of fallback_analyzer ?q] by blast
  from each [rule_format, of 0] ev(1) have v0: "scores ! 0 = 3 / 10" by simp
  from each [rule_format, of 1] ev(2) have v1: "scores ! 1 = 8 / 10" by simp
  from each [rule_format, of 2] ev(3) have v2: "scores ! 2 = 8 / 10" by simp
  note v = v0 v1 v2
  from len obtain a b d where sh: "scores = [a, b, d]"
    by (auto simp: numeral_3_eq_3 length_Suc_conv)
  with v have scores: "scores = [3 / 10, 8 / 10, 8 / 10]" by simp
  with c have cv: "c = 8 / 10" by simp
  have "i = 1"
  proof -
    from i have "i = 0 \<or> i = 1 \<or> i = 2" by auto
    moreover have "i \<noteq> 0"
    proof
      assume "i = 0"
      with at v0 cv show False by simp
    qed
    moreover have "i \<noteq> 2"
    proof
      assume "i = 2"
      with first have "scores ! 1 < c" by simp
      with v(2) cv show False by simp
    qed
    ultimately show ?thesis by simp
  qed
  with res cv ne show ?thesis by simp
qed

subsection \<open>The end-to-end scenario\<close>

lemma policy_first_words:
  "scan_question_words question_words [str_lower ''Do'', str_lower ''you'', str_lower ''agree'']
     = Some ''yes_no''"
  by code_simp

lemma policy_sentiment: "rule_based_sentiment ''Do you agree with this policy?'' = ''neutral''"
  by code_simp

lemma policy_option_facts:
  "contains_any (str_lower ''Strongly agree'') yes_markers"
  "contains_any (str_lower ''Strongly disagree'') yes_markers"
  "\<not> contains_any (str_lower ''No opinion'') yes_markers"
  "contains_any (str_lower ''No opinion'') no_markers"
  "rule_based_sentiment ''Strongly agree'' = ''neutral''"
  "rule_based_sentiment ''Strongly disagree'' = ''neutral''"
  "rule_based_sentiment ''No opinion'' = ''neutral''"
  "length (str_split ''Strongly agree'') = 2"
  "length (str_split ''Strongly disagree'') = 2"
  "length (str_split ''No opinion'') = 2"
  by code_simp+

lemma prefer_yes_fallback_score:
  assumes "answer_strategy an = ''prefer_yes''" and "\<not> use_transformers self"
    and "sentiment an = ''neutral''" and "rule_based_sentiment opt = ''neutral''"
    and "length (str_split opt) = 2"
  shows "score_option self opt q an =
           Inr (if contains_any (str_lower opt) yes_markers then 9 / 10
                else if contains_any (str_lower opt) no_markers then 4 / 10 else 6 / 10)"
  using assms
  by (simp add: score_option_def strategy_scoring_def sentiment_matching_def
      length_preference_def analyze_sentiment_def Let_def)

text \<open>
  \<^bold>\<open>C9.\<close> Take an analyzer whose sentiment runs on the rule-based fallback and whose
  tokenizer starts the question \<open>Do you agree with this policy?\<close> with the tokens \<open>Do\<close>,
  \<open>you\<close>, \<open>agree\<close>. The analysis of the question has type \<open>yes_no\<close> and strategy
  \<open>prefer_yes\<close>, and on the options \<open>Strongly agree\<close>, \<open>Strongly disagree\<close>, \<open>No opinion\<close>
  the ranker returns index 0 with confidence 0.9, strictly above the 0.4 that the scorer
  gives to \<open>No opinion\<close>.
\<close>

theorem agree_policy_scenario:
  assumes "\<not> use_transformers self"
    and "map tok_text (take 3 (doc_tokens (nlp self ''Do you agree with this policy?'')))
           = [''Do'', ''you'', ''agree'']"
  shows "question_type (analyze_question self ''Do you agree with this policy?'') = ''yes_no''
       \<and> answer_strategy (analyze_question self ''Do you agree with this policy?'') = ''prefer_yes''
       \<and> predict_best_answer self ''Do you agree with this policy?''
             [''Strongly agree'', ''Strongly disagree'', ''No opinion''] = Inr (0, 9 / 10)
       \<and> score_option self ''No opinion'' ''Do you agree with this policy?''
             (analyze_question self ''Do you agree with this policy?'') = Inr (4 / 10)
       \<and> (4 / 10 :: rat) < 9 / 10"
proof -
  let ?q = "''Do you agree with this policy?''"
  let ?an = "analyze_question self ?q"
  have fw: "[str_lower (tok_text t). t \<leftarrow> take 3 (doc_tokens (nlp self ?q))]
            = [str_lower ''Do'', str_lower ''you'', str_lower ''agree'']"
  proof -
    have "[str_lower (tok_text t). t \<leftarrow> take 3 (doc_tokens (nlp self ?q))]
          = map str_lower (map tok_text (take 3 (doc_tokens (nlp self ?q))))"
      by simp
    then show ?thesis by (simp add: assms(2))
  qed
  have qt: "question_type ?an = ''yes_no''"
    by (simp add: analyze_question_def Let_def determine_question_type_def fw policy_first_words)
  have st: "answer_strategy ?an = ''prefer_yes''"
    using qt by (simp add: analyze_question_def Let_def determine_answer_strategy_def)
  have se: "sentiment ?an = ''neutral''"
    using assms(1) by (simp add: analyze_question_def Let_def analyze_sentiment_def policy_sentiment)
  have s0: "score_option self ''Strongly agree'' ?q ?an = Inr (9 / 10)"
    using prefer_yes_fallback_score [OF st assms(1) se policy_option_facts(5) policy_option_facts(8)]
    by (simp add: policy_option_facts)
  have s1: "score_option self ''Strongly disagree'' ?q ?an = Inr (9 / 10)"
    using prefer_yes_fallback_score [OF st assms(1) se policy_option_facts(6) policy_option_facts(9)]
    by (simp add: policy_option_facts)
  have s2: "score_option self ''No opinion'' ?q ?an = Inr (4 / 10)"
    using prefer_yes_fallback_score [OF st assms(1) se policy_option_facts(7) policy_option_facts(10)]
    by (simp add: policy_option_facts)
  have "predict_best_answer self ?q [''Strongly agree'', ''Strongly disagree'', ''No opinion'']
          = Inr (0, 9 / 10)"
    using s0 s1 s2 by (simp add: predict_best_answer_def Let_def py_get_def)
  with qt st s2 show ?thesis by simp
qed

theorem agree_policy_scenario_witness:
  "\<not> use_transformers fallback_analyzer
   \<and> map tok_text (take 3 (doc_tokens (nlp fallback_analyzer ''Do you agree with this policy?'')))
       = [''Do'', ''you'', ''agree'']
   \<and> question_type (analyze_question fallback_analyzer ''Do you agree with this policy?'') = ''yes_no''
   \<and> predict_best_answer fallback_analyzer ''Do you agree with this policy?''
       [''Strongly agree'', ''Strongly disagree'', ''No opinion''] = Inr (0, 9 / 10)"
proof -
  have off: "\<not> use_transformers fallback_analyzer"
    by (simp add: fallback_analyzer_def)
  have toks: "map tok_text (take 3 (doc_tokens (nlp fallback_analyzer ''Do you agree with this policy?'')))
       = [''Do'', ''you'', ''agree'']"
    by code_simp
  from agree_policy_scenario [OF off toks] off toks show ?thesis by simp
qed

end
